theory Spec2Isabelle
  imports Complex_Main "HOL-Library.Product_Lexorder"
begin

section \<open>Arrays\<close>

text \<open>
  The Python exceptions that the modelled code and the array operations it calls can raise.
\<close>

datatype error = IndexError | ValueError | AxisError | TypeError | RuntimeError

definition ebind :: "error + 'a \<Rightarrow> ('a \<Rightarrow> error + 'b) \<Rightarrow> error + 'b" where
  "ebind m f = (case m of Inl e \<Rightarrow> Inl e | Inr x \<Rightarrow> f x)"

text \<open>
  An n-dimensional array is its shape together with the entry stored at each multi-index.
  Only the entries at the multi-indices inside the shape are ever read.
\<close>

datatype 'a ndarray = NDArray (shape: "nat list") (item: "nat list \<Rightarrow> 'a")

definition ndim :: "'a ndarray \<Rightarrow> nat" where
  "ndim a = length (shape a)"

definition size_nd :: "'a ndarray \<Rightarrow> nat" where
  "size_nd a = prod_list (shape a)"

text \<open>All multi-indices of a shape, in row-major (C) order.\<close>

fun indices :: "nat list \<Rightarrow> nat list list" where
  "indices [] = [[]]"
| "indices (n # ns) = concat (map (\<lambda>i. map ((#) i) (indices ns)) [0..<n])"

text \<open>
  Broadcasting of two shapes, aligned at the last axis: two extents are compatible when
  they are equal or one of them is 1. The shapes are given reversed.
\<close>

fun broadcast_dims :: "nat list \<Rightarrow> nat list \<Rightarrow> nat list option" where
  "broadcast_dims [] ys = Some ys"
| "broadcast_dims (x # xs) [] = Some (x # xs)"
| "broadcast_dims (x # xs) (y # ys) =
     (if x = y then map_option ((#) x) (broadcast_dims xs ys)
      else if y = 1 then map_option ((#) x) (broadcast_dims xs ys)
      else if x = 1 then map_option ((#) y) (broadcast_dims xs ys)
      else None)"

definition broadcast_shapes :: "nat list \<Rightarrow> nat list \<Rightarrow> nat list option" where
  "broadcast_shapes s1 s2 = map_option rev (broadcast_dims (rev s1) (rev s2))"

text \<open>The multi-index of the source array that a multi-index of the broadcast result reads.\<close>

definition broadcast_index :: "nat list \<Rightarrow> nat list \<Rightarrow> nat list" where
  "broadcast_index s idx =
     map (\<lambda>(d, i). if d = 1 then 0 else i) (zip s (drop (length idx - length s) idx))"

definition elementwise2 ::
  "('a \<Rightarrow> 'b \<Rightarrow> 'c) \<Rightarrow> 'a ndarray \<Rightarrow> 'b ndarray \<Rightarrow> error + 'c ndarray" where
  "elementwise2 f a b =
     (case broadcast_shapes (shape a) (shape b) of
        None \<Rightarrow> Inl ValueError
      | Some bs \<Rightarrow>
          Inr (NDArray bs (\<lambda>idx. f (item a (broadcast_index (shape a) idx))
                                    (item b (broadcast_index (shape b) idx)))))"

definition map_nd :: "('a \<Rightarrow> 'b) \<Rightarrow> 'a ndarray \<Rightarrow> 'b ndarray" where
  "map_nd f a = NDArray (shape a) (\<lambda>idx. f (item a idx))"

text \<open>\<^verbatim>\<open>np.sum\<close> of a boolean array: the number of true entries.\<close>

definition np_sum :: "bool ndarray \<Rightarrow> nat" where
  "np_sum a = length (filter (item a) (indices (shape a)))"

definition logical_and :: "bool ndarray \<Rightarrow> bool ndarray \<Rightarrow> error + bool ndarray" where
  "logical_and a b = elementwise2 (\<and>) a b"

section \<open>The confusion matrix\<close>

record ConfusionMatrix =
  tp :: nat
  tn :: nat
  fp :: nat
  fn :: nat
  n :: nat

text \<open>
  \<^verbatim>\<open>ConfusionMatrix.__init__\<close>: four counts over the (broadcast) comparison arrays, in the
  order of the source, and the size of the prediction.
\<close>

definition ConfusionMatrix_init :: "int ndarray \<Rightarrow> int ndarray \<Rightarrow> error + ConfusionMatrix" where
  "ConfusionMatrix_init prediction label =
     ebind (logical_and (map_nd (\<lambda>x. x = 1) prediction) (map_nd (\<lambda>x. x = 1) label)) (\<lambda>a_tp.
     ebind (logical_and (map_nd (\<lambda>x. x = 0) prediction) (map_nd (\<lambda>x. x = 0) label)) (\<lambda>a_tn.
     ebind (logical_and (map_nd (\<lambda>x. x = 1) prediction) (map_nd (\<lambda>x. x = 0) label)) (\<lambda>a_fp.
     ebind (logical_and (map_nd (\<lambda>x. x = 0) prediction) (map_nd (\<lambda>x. x = 1) label)) (\<lambda>a_fn.
       Inr \<lparr>tp = np_sum a_tp, tn = np_sum a_tn, fp = np_sum a_fp, fn = np_sum a_fn,
            n = size_nd prediction\<rparr>))))"

section \<open>Surface distances\<close>

text \<open>
  Distances are 64-bit floats that may be positive infinity; they are modelled as a real
  number or \<open>PInf\<close>, ordered with \<open>PInf\<close> last. Surface areas are reals.
\<close>

datatype edist = Fin real | PInf

instantiation edist :: linorder
begin

fun less_eq_edist :: "edist \<Rightarrow> edist \<Rightarrow> bool" where
  "less_eq_edist (Fin a) (Fin b) = (a \<le> b)"
| "less_eq_edist (Fin a) PInf = True"
| "less_eq_edist PInf (Fin b) = False"
| "less_eq_edist PInf PInf = True"

fun less_edist :: "edist \<Rightarrow> edist \<Rightarrow> bool" where
  "less_edist (Fin a) (Fin b) = (a < b)"
| "less_edist (Fin a) PInf = True"
| "less_edist PInf (Fin b) = False"
| "less_edist PInf PInf = False"

instance
proof
  fix x y z :: edist
  show "(x < y) = (x \<le> y \<and> \<not> y \<le> x)" by (cases x; cases y) auto
  show "x \<le> x" by (cases x) auto
  show "x \<le> y \<Longrightarrow> y \<le> z \<Longrightarrow> x \<le> z" by (cases x; cases y; cases z) auto
  show "x \<le> y \<Longrightarrow> y \<le> x \<Longrightarrow> x = y" by (cases x; cases y) auto
  show "x \<le> y \<or> y \<le> x" by (cases x; cases y) auto
qed

end

text \<open>The four attributes of a \<^verbatim>\<open>Distances\<close> object; \<open>None\<close> is Python's \<^verbatim>\<open>None\<close>.\<close>

record Distances =
  distances_gt_to_pred :: "edist list option"
  distances_pred_to_gt :: "edist list option"
  surfel_areas_gt :: "real list option"
  surfel_areas_pred :: "real list option"

definition neighbour_code_to_normals :: "real list list list" where
  "neighbour_code_to_normals = [
   [[0, 0, 0]],
   [[0.125, 0.125, 0.125]],
   [[- 0.125, - 0.125, 0.125]],
   [[- 0.25, - 0.25, 0.0], [0.25, 0.25, - 0.0]],
   [[0.125, - 0.125, 0.125]],
   [[- 0.25, - 0.0, - 0.25], [0.25, 0.0, 0.25]],
   [[0.125, - 0.125, 0.125], [- 0.125, - 0.125, 0.125]],
   [[0.5, 0.0, - 0.0], [0.25, 0.25, 0.25], [0.125, 0.125, 0.125]],
   [[- 0.125, 0.125, 0.125]],
   [[0.125, 0.125, 0.125], [- 0.125, 0.125, 0.125]],
   [[- 0.25, 0.0, 0.25], [- 0.25, 0.0, 0.25]],
   [[0.5, 0.0, 0.0], [- 0.25, - 0.25, 0.25], [- 0.125, - 0.125, 0.125]],
   [[0.25, - 0.25, 0.0], [0.25, - 0.25, 0.0]],
   [[0.5, 0.0, 0.0], [0.25, - 0.25, 0.25], [- 0.125, 0.125, - 0.125]],
   [[- 0.5, 0.0, 0.0], [- 0.25, 0.25, 0.25], [- 0.125, 0.125, 0.125]],
   [[0.5, 0.0, 0.0], [0.5, 0.0, 0.0]],
   [[0.125, - 0.125, - 0.125]],
   [[0.0, - 0.25, - 0.25], [0.0, 0.25, 0.25]],
   [[- 0.125, - 0.125, 0.125], [0.125, - 0.125, - 0.125]],
   [[0.0, - 0.5, 0.0], [0.25, 0.25, 0.25], [0.125, 0.125, 0.125]],
   [[0.125, - 0.125, 0.125], [0.125, - 0.125, - 0.125]],
   [[0.0, 0.0, - 0.5], [0.25, 0.25, 0.25], [- 0.125, - 0.125, - 0.125]],
   [[- 0.125, - 0.125, 0.125], [0.125, - 0.125, 0.125], [0.125, - 0.125, - 0.125]],
   [[- 0.125, - 0.125, - 0.125], [- 0.25, - 0.25, - 0.25], [0.25, 0.25, 0.25], [0.125, 0.125, 0.125]],
   [[- 0.125, 0.125, 0.125], [0.125, - 0.125, - 0.125]],
   [[0.0, - 0.25, - 0.25], [0.0, 0.25, 0.25], [- 0.125, 0.125, 0.125]],
   [[- 0.25, 0.0, 0.25], [- 0.25, 0.0, 0.25], [0.125, - 0.125, - 0.125]],
   [[0.125, 0.125, 0.125], [0.375, 0.375, 0.375], [0.0, - 0.25, 0.25], [- 0.25, 0.0, 0.25]],
   [[0.125, - 0.125, - 0.125], [0.25, - 0.25, 0.0], [0.25, - 0.25, 0.0]],
   [[0.375, 0.375, 0.375], [0.0, 0.25, - 0.25], [- 0.125, - 0.125, - 0.125], [- 0.25, 0.25, 0.0]],
   [[- 0.5, 0.0, 0.0], [- 0.125, - 0.125, - 0.125], [- 0.25, - 0.25, - 0.25], [0.125, 0.125, 0.125]],
   [[- 0.5, 0.0, 0.0], [- 0.125, - 0.125, - 0.125], [- 0.25, - 0.25, - 0.25]],
   [[0.125, - 0.125, 0.125]],
   [[0.125, 0.125, 0.125], [0.125, - 0.125, 0.125]],
   [[0.0, - 0.25, 0.25], [0.0, 0.25, - 0.25]],
   [[0.0, - 0.5, 0.0], [0.125, 0.125, - 0.125], [0.25, 0.25, - 0.25]],
   [[0.125, - 0.125, 0.125], [0.125, - 0.125, 0.125]],
   [[0.125, - 0.125, 0.125], [- 0.25, - 0.0, - 0.25], [0.25, 0.0, 0.25]],
   [[0.0, - 0.25, 0.25], [0.0, 0.25, - 0.25], [0.125, - 0.125, 0.125]],
   [[- 0.375, - 0.375, 0.375], [- 0.0, 0.25, 0.25], [0.125, 0.125, - 0.125], [- 0.25, - 0.0, - 0.25]],
   [[- 0.125, 0.125, 0.125], [0.125, - 0.125, 0.125]],
   [[0.125, 0.125, 0.125], [0.125, - 0.125, 0.125], [- 0.125, 0.125, 0.125]],
   [[- 0.0, 0.0, 0.5], [- 0.25, - 0.25, 0.25], [- 0.125, - 0.125, 0.125]],
   [[0.25, 0.25, - 0.25], [0.25, 0.25, - 0.25], [0.125, 0.125, - 0.125], [- 0.125, - 0.125, 0.125]],
   [[0.125, - 0.125, 0.125], [0.25, - 0.25, 0.0], [0.25, - 0.25, 0.0]],
   [[0.5, 0.0, 0.0], [0.25, - 0.25, 0.25], [- 0.125, 0.125, - 0.125], [0.125, - 0.125, 0.125]],
   [[0.0, 0.25, - 0.25], [0.375, - 0.375, - 0.375], [- 0.125, 0.125, 0.125], [0.25, 0.25, 0.0]],
   [[- 0.5, 0.0, 0.0], [- 0.25, - 0.25, 0.25], [- 0.125, - 0.125, 0.125]],
   [[0.25, - 0.25, 0.0], [- 0.25, 0.25, 0.0]],
   [[0.0, 0.5, 0.0], [- 0.25, 0.25, 0.25], [0.125, - 0.125, - 0.125]],
   [[0.0, 0.5, 0.0], [0.125, - 0.125, 0.125], [- 0.25, 0.25, - 0.25]],
   [[0.0, 0.5, 0.0], [0.0, - 0.5, 0.0]],
   [[0.25, - 0.25, 0.0], [- 0.25, 0.25, 0.0], [0.125, - 0.125, 0.125]],
   [[- 0.375, - 0.375, - 0.375], [- 0.25, 0.0, 0.25], [- 0.125, - 0.125, - 0.125], [- 0.25, 0.25, 0.0]],
   [[0.125, 0.125, 0.125], [0.0, - 0.5, 0.0], [- 0.25, - 0.25, - 0.25], [- 0.125, - 0.125, - 0.125]],
   [[0.0, - 0.5, 0.0], [- 0.25, - 0.25, - 0.25], [- 0.125, - 0.125, - 0.125]],
   [[- 0.125, 0.125, 0.125], [0.25, - 0.25, 0.0], [- 0.25, 0.25, 0.0]],
   [[0.0, 0.5, 0.0], [0.25, 0.25, - 0.25], [- 0.125, - 0.125, 0.125], [- 0.125, - 0.125, 0.125]],
   [[- 0.375, 0.375, - 0.375], [- 0.25, - 0.25, 0.0], [- 0.125, 0.125, - 0.125], [- 0.25, 0.0, 0.25]],
   [[0.0, 0.5, 0.0], [0.25, 0.25, - 0.25], [- 0.125, - 0.125, 0.125]],
   [[0.25, - 0.25, 0.0], [- 0.25, 0.25, 0.0], [0.25, - 0.25, 0.0], [0.25, - 0.25, 0.0]],
   [[- 0.25, - 0.25, 0.0], [- 0.25, - 0.25, 0.0], [- 0.125, - 0.125, 0.125]],
   [[0.125, 0.125, 0.125], [- 0.25, - 0.25, 0.0], [- 0.25, - 0.25, 0.0]],
   [[- 0.25, - 0.25, 0.0], [- 0.25, - 0.25, 0.0]],
   [[- 0.125, - 0.125, 0.125]],
   [[0.125, 0.125, 0.125], [- 0.125, - 0.125, 0.125]],
   [[- 0.125, - 0.125, 0.125], [- 0.125, - 0.125, 0.125]],
   [[- 0.125, - 0.125, 0.125], [- 0.25, - 0.25, 0.0], [0.25, 0.25, - 0.0]],
   [[0.0, - 0.25, 0.25], [0.0, - 0.25, 0.25]],
   [[0.0, 0.0, 0.5], [0.25, - 0.25, 0.25], [0.125, - 0.125, 0.125]],
   [[0.0, - 0.25, 0.25], [0.0, - 0.25, 0.25], [- 0.125, - 0.125, 0.125]],
   [[0.375, - 0.375, 0.375], [0.0, - 0.25, - 0.25], [- 0.125, 0.125, - 0.125], [0.25, 0.25, 0.0]],
   [[- 0.125, - 0.125, 0.125], [- 0.125, 0.125, 0.125]],
   [[0.125, 0.125, 0.125], [- 0.125, - 0.125, 0.125], [- 0.125, 0.125, 0.125]],
   [[- 0.125, - 0.125, 0.125], [- 0.25, 0.0, 0.25], [- 0.25, 0.0, 0.25]],
   [[0.5, 0.0, 0.0], [- 0.25, - 0.25, 0.25], [- 0.125, - 0.125, 0.125], [- 0.125, - 0.125, 0.125]],
   [[- 0.0, 0.5, 0.0], [- 0.25, 0.25, - 0.25], [0.125, - 0.125, 0.125]],
   [[- 0.25, 0.25, - 0.25], [- 0.25, 0.25, - 0.25], [- 0.125, 0.125, - 0.125], [- 0.125, 0.125, - 0.125]],
   [[- 0.25, 0.0, - 0.25], [0.375, - 0.375, - 0.375], [0.0, 0.25, - 0.25], [- 0.125, 0.125, 0.125]],
   [[0.5, 0.0, 0.0], [- 0.25, 0.25, - 0.25], [0.125, - 0.125, 0.125]],
   [[- 0.25, 0.0, 0.25], [0.25, 0.0, - 0.25]],
   [[- 0.0, 0.0, 0.5], [- 0.25, 0.25, 0.25], [- 0.125, 0.125, 0.125]],
   [[- 0.125, - 0.125, 0.125], [- 0.25, 0.0, 0.25], [0.25, 0.0, - 0.25]],
   [[- 0.25, - 0.0, - 0.25], [- 0.375, 0.375, 0.375], [- 0.25, - 0.25, 0.0], [- 0.125, 0.125, 0.125]],
   [[0.0, 0.0, - 0.5], [0.25, 0.25, - 0.25], [- 0.125, - 0.125, 0.125]],
   [[- 0.0, 0.0, 0.5], [0.0, 0.0, 0.5]],
   [[0.125, 0.125, 0.125], [0.125, 0.125, 0.125], [0.25, 0.25, 0.25], [0.0, 0.0, 0.5]],
   [[0.125, 0.125, 0.125], [0.25, 0.25, 0.25], [0.0, 0.0, 0.5]],
   [[- 0.25, 0.0, 0.25], [0.25, 0.0, - 0.25], [- 0.125, 0.125, 0.125]],
   [[- 0.0, 0.0, 0.5], [0.25, - 0.25, 0.25], [0.125, - 0.125, 0.125], [0.125, - 0.125, 0.125]],
   [[- 0.25, 0.0, 0.25], [- 0.25, 0.0, 0.25], [- 0.25, 0.0, 0.25], [0.25, 0.0, - 0.25]],
   [[0.125, - 0.125, 0.125], [0.25, 0.0, 0.25], [0.25, 0.0, 0.25]],
   [[0.25, 0.0, 0.25], [- 0.375, - 0.375, 0.375], [- 0.25, 0.25, 0.0], [- 0.125, - 0.125, 0.125]],
   [[- 0.0, 0.0, 0.5], [0.25, - 0.25, 0.25], [0.125, - 0.125, 0.125]],
   [[0.125, 0.125, 0.125], [0.25, 0.0, 0.25], [0.25, 0.0, 0.25]],
   [[0.25, 0.0, 0.25], [0.25, 0.0, 0.25]],
   [[- 0.125, - 0.125, 0.125], [0.125, - 0.125, 0.125]],
   [[0.125, 0.125, 0.125], [- 0.125, - 0.125, 0.125], [0.125, - 0.125, 0.125]],
   [[- 0.125, - 0.125, 0.125], [0.0, - 0.25, 0.25], [0.0, 0.25, - 0.25]],
   [[0.0, - 0.5, 0.0], [0.125, 0.125, - 0.125], [0.25, 0.25, - 0.25], [- 0.125, - 0.125, 0.125]],
   [[0.0, - 0.25, 0.25], [0.0, - 0.25, 0.25], [0.125, - 0.125, 0.125]],
   [[0.0, 0.0, 0.5], [0.25, - 0.25, 0.25], [0.125, - 0.125, 0.125], [0.125, - 0.125, 0.125]],
   [[0.0, - 0.25, 0.25], [0.0, - 0.25, 0.25], [0.0, - 0.25, 0.25], [0.0, 0.25, - 0.25]],
   [[0.0, 0.25, 0.25], [0.0, 0.25, 0.25], [0.125, - 0.125, - 0.125]],
   [[- 0.125, 0.125, 0.125], [0.125, - 0.125, 0.125], [- 0.125, - 0.125, 0.125]],
   [[- 0.125, 0.125, 0.125], [0.125, - 0.125, 0.125], [- 0.125, - 0.125, 0.125], [0.125, 0.125, 0.125]],
   [[- 0.0, 0.0, 0.5], [- 0.25, - 0.25, 0.25], [- 0.125, - 0.125, 0.125], [- 0.125, - 0.125, 0.125]],
   [[0.125, 0.125, 0.125], [0.125, - 0.125, 0.125], [0.125, - 0.125, - 0.125]],
   [[- 0.0, 0.5, 0.0], [- 0.25, 0.25, - 0.25], [0.125, - 0.125, 0.125], [0.125, - 0.125, 0.125]],
   [[0.125, 0.125, 0.125], [- 0.125, - 0.125, 0.125], [0.125, - 0.125, - 0.125]],
   [[0.0, - 0.25, - 0.25], [0.0, 0.25, 0.25], [0.125, 0.125, 0.125]],
   [[0.125, 0.125, 0.125], [0.125, - 0.125, - 0.125]],
   [[0.5, 0.0, - 0.0], [0.25, - 0.25, - 0.25], [0.125, - 0.125, - 0.125]],
   [[- 0.25, 0.25, 0.25], [- 0.125, 0.125, 0.125], [- 0.25, 0.25, 0.25], [0.125, - 0.125, - 0.125]],
   [[0.375, - 0.375, 0.375], [0.0, 0.25, 0.25], [- 0.125, 0.125, - 0.125], [- 0.25, 0.0, 0.25]],
   [[0.0, - 0.5, 0.0], [- 0.25, 0.25, 0.25], [- 0.125, 0.125, 0.125]],
   [[- 0.375, - 0.375, 0.375], [0.25, - 0.25, 0.0], [0.0, 0.25, 0.25], [- 0.125, - 0.125, 0.125]],
   [[- 0.125, 0.125, 0.125], [- 0.25, 0.25, 0.25], [0.0, 0.0, 0.5]],
   [[0.125, 0.125, 0.125], [0.0, 0.25, 0.25], [0.0, 0.25, 0.25]],
   [[0.0, 0.25, 0.25], [0.0, 0.25, 0.25]],
   [[0.5, 0.0, - 0.0], [0.25, 0.25, 0.25], [0.125, 0.125, 0.125], [0.125, 0.125, 0.125]],
   [[0.125, - 0.125, 0.125], [- 0.125, - 0.125, 0.125], [0.125, 0.125, 0.125]],
   [[- 0.25, - 0.0, - 0.25], [0.25, 0.0, 0.25], [0.125, 0.125, 0.125]],
   [[0.125, 0.125, 0.125], [0.125, - 0.125, 0.125]],
   [[- 0.25, - 0.25, 0.0], [0.25, 0.25, - 0.0], [0.125, 0.125, 0.125]],
   [[0.125, 0.125, 0.125], [- 0.125, - 0.125, 0.125]],
   [[0.125, 0.125, 0.125], [0.125, 0.125, 0.125]],
   [[0.125, 0.125, 0.125]],
   [[0.125, 0.125, 0.125]],
   [[0.125, 0.125, 0.125], [0.125, 0.125, 0.125]],
   [[0.125, 0.125, 0.125], [- 0.125, - 0.125, 0.125]],
   [[- 0.25, - 0.25, 0.0], [0.25, 0.25, - 0.0], [0.125, 0.125, 0.125]],
   [[0.125, 0.125, 0.125], [0.125, - 0.125, 0.125]],
   [[- 0.25, - 0.0, - 0.25], [0.25, 0.0, 0.25], [0.125, 0.125, 0.125]],
   [[0.125, - 0.125, 0.125], [- 0.125, - 0.125, 0.125], [0.125, 0.125, 0.125]],
   [[0.5, 0.0, - 0.0], [0.25, 0.25, 0.25], [0.125, 0.125, 0.125], [0.125, 0.125, 0.125]],
   [[0.0, 0.25, 0.25], [0.0, 0.25, 0.25]],
   [[0.125, 0.125, 0.125], [0.0, 0.25, 0.25], [0.0, 0.25, 0.25]],
   [[- 0.125, 0.125, 0.125], [- 0.25, 0.25, 0.25], [0.0, 0.0, 0.5]],
   [[- 0.375, - 0.375, 0.375], [0.25, - 0.25, 0.0], [0.0, 0.25, 0.25], [- 0.125, - 0.125, 0.125]],
   [[0.0, - 0.5, 0.0], [- 0.25, 0.25, 0.25], [- 0.125, 0.125, 0.125]],
   [[0.375, - 0.375, 0.375], [0.0, 0.25, 0.25], [- 0.125, 0.125, - 0.125], [- 0.25, 0.0, 0.25]],
   [[- 0.25, 0.25, 0.25], [- 0.125, 0.125, 0.125], [- 0.25, 0.25, 0.25], [0.125, - 0.125, - 0.125]],
   [[0.5, 0.0, - 0.0], [0.25, - 0.25, - 0.25], [0.125, - 0.125, - 0.125]],
   [[0.125, 0.125, 0.125], [0.125, - 0.125, - 0.125]],
   [[0.0, - 0.25, - 0.25], [0.0, 0.25, 0.25], [0.125, 0.125, 0.125]],
   [[0.125, 0.125, 0.125], [- 0.125, - 0.125, 0.125], [0.125, - 0.125, - 0.125]],
   [[- 0.0, 0.5, 0.0], [- 0.25, 0.25, - 0.25], [0.125, - 0.125, 0.125], [0.125, - 0.125, 0.125]],
   [[0.125, 0.125, 0.125], [0.125, - 0.125, 0.125], [0.125, - 0.125, - 0.125]],
   [[- 0.0, 0.0, 0.5], [- 0.25, - 0.25, 0.25], [- 0.125, - 0.125, 0.125], [- 0.125, - 0.125, 0.125]],
   [[- 0.125, 0.125, 0.125], [0.125, - 0.125, 0.125], [- 0.125, - 0.125, 0.125], [0.125, 0.125, 0.125]],
   [[- 0.125, 0.125, 0.125], [0.125, - 0.125, 0.125], [- 0.125, - 0.125, 0.125]],
   [[0.0, 0.25, 0.25], [0.0, 0.25, 0.25], [0.125, - 0.125, - 0.125]],
   [[0.0, - 0.25, - 0.25], [0.0, 0.25, 0.25], [0.0, 0.25, 0.25], [0.0, 0.25, 0.25]],
   [[0.0, 0.0, 0.5], [0.25, - 0.25, 0.25], [0.125, - 0.125, 0.125], [0.125, - 0.125, 0.125]],
   [[0.0, - 0.25, 0.25], [0.0, - 0.25, 0.25], [0.125, - 0.125, 0.125]],
   [[0.0, - 0.5, 0.0], [0.125, 0.125, - 0.125], [0.25, 0.25, - 0.25], [- 0.125, - 0.125, 0.125]],
   [[- 0.125, - 0.125, 0.125], [0.0, - 0.25, 0.25], [0.0, 0.25, - 0.25]],
   [[0.125, 0.125, 0.125], [- 0.125, - 0.125, 0.125], [0.125, - 0.125, 0.125]],
   [[- 0.125, - 0.125, 0.125], [0.125, - 0.125, 0.125]],
   [[0.25, 0.0, 0.25], [0.25, 0.0, 0.25]],
   [[0.125, 0.125, 0.125], [0.25, 0.0, 0.25], [0.25, 0.0, 0.25]],
   [[- 0.0, 0.0, 0.5], [0.25, - 0.25, 0.25], [0.125, - 0.125, 0.125]],
   [[0.25, 0.0, 0.25], [- 0.375, - 0.375, 0.375], [- 0.25, 0.25, 0.0], [- 0.125, - 0.125, 0.125]],
   [[0.125, - 0.125, 0.125], [0.25, 0.0, 0.25], [0.25, 0.0, 0.25]],
   [[- 0.25, - 0.0, - 0.25], [0.25, 0.0, 0.25], [0.25, 0.0, 0.25], [0.25, 0.0, 0.25]],
   [[- 0.0, 0.0, 0.5], [0.25, - 0.25, 0.25], [0.125, - 0.125, 0.125], [0.125, - 0.125, 0.125]],
   [[- 0.25, 0.0, 0.25], [0.25, 0.0, - 0.25], [- 0.125, 0.125, 0.125]],
   [[0.125, 0.125, 0.125], [0.25, 0.25, 0.25], [0.0, 0.0, 0.5]],
   [[0.125, 0.125, 0.125], [0.125, 0.125, 0.125], [0.25, 0.25, 0.25], [0.0, 0.0, 0.5]],
   [[- 0.0, 0.0, 0.5], [0.0, 0.0, 0.5]],
   [[0.0, 0.0, - 0.5], [0.25, 0.25, - 0.25], [- 0.125, - 0.125, 0.125]],
   [[- 0.25, - 0.0, - 0.25], [- 0.375, 0.375, 0.375], [- 0.25, - 0.25, 0.0], [- 0.125, 0.125, 0.125]],
   [[- 0.125, - 0.125, 0.125], [- 0.25, 0.0, 0.25], [0.25, 0.0, - 0.25]],
   [[- 0.0, 0.0, 0.5], [- 0.25, 0.25, 0.25], [- 0.125, 0.125, 0.125]],
   [[- 0.25, 0.0, 0.25], [0.25, 0.0, - 0.25]],
   [[0.5, 0.0, 0.0], [- 0.25, 0.25, - 0.25], [0.125, - 0.125, 0.125]],
   [[- 0.25, 0.0, - 0.25], [0.375, - 0.375, - 0.375], [0.0, 0.25, - 0.25], [- 0.125, 0.125, 0.125]],
   [[- 0.25, 0.25, - 0.25], [- 0.25, 0.25, - 0.25], [- 0.125, 0.125, - 0.125], [- 0.125, 0.125, - 0.125]],
   [[- 0.0, 0.5, 0.0], [- 0.25, 0.25, - 0.25], [0.125, - 0.125, 0.125]],
   [[0.5, 0.0, 0.0], [- 0.25, - 0.25, 0.25], [- 0.125, - 0.125, 0.125], [- 0.125, - 0.125, 0.125]],
   [[- 0.125, - 0.125, 0.125], [- 0.25, 0.0, 0.25], [- 0.25, 0.0, 0.25]],
   [[0.125, 0.125, 0.125], [- 0.125, - 0.125, 0.125], [- 0.125, 0.125, 0.125]],
   [[- 0.125, - 0.125, 0.125], [- 0.125, 0.125, 0.125]],
   [[0.375, - 0.375, 0.375], [0.0, - 0.25, - 0.25], [- 0.125, 0.125, - 0.125], [0.25, 0.25, 0.0]],
   [[0.0, - 0.25, 0.25], [0.0, - 0.25, 0.25], [- 0.125, - 0.125, 0.125]],
   [[0.0, 0.0, 0.5], [0.25, - 0.25, 0.25], [0.125, - 0.125, 0.125]],
   [[0.0, - 0.25, 0.25], [0.0, - 0.25, 0.25]],
   [[- 0.125, - 0.125, 0.125], [- 0.25, - 0.25, 0.0], [0.25, 0.25, - 0.0]],
   [[- 0.125, - 0.125, 0.125], [- 0.125, - 0.125, 0.125]],
   [[0.125, 0.125, 0.125], [- 0.125, - 0.125, 0.125]],
   [[- 0.125, - 0.125, 0.125]],
   [[- 0.25, - 0.25, 0.0], [- 0.25, - 0.25, 0.0]],
   [[0.125, 0.125, 0.125], [- 0.25, - 0.25, 0.0], [- 0.25, - 0.25, 0.0]],
   [[- 0.25, - 0.25, 0.0], [- 0.25, - 0.25, 0.0], [- 0.125, - 0.125, 0.125]],
   [[- 0.25, - 0.25, 0.0], [- 0.25, - 0.25, 0.0], [- 0.25, - 0.25, 0.0], [0.25, 0.25, - 0.0]],
   [[0.0, 0.5, 0.0], [0.25, 0.25, - 0.25], [- 0.125, - 0.125, 0.125]],
   [[- 0.375, 0.375, - 0.375], [- 0.25, - 0.25, 0.0], [- 0.125, 0.125, - 0.125], [- 0.25, 0.0, 0.25]],
   [[0.0, 0.5, 0.0], [0.25, 0.25, - 0.25], [- 0.125, - 0.125, 0.125], [- 0.125, - 0.125, 0.125]],
   [[- 0.125, 0.125, 0.125], [0.25, - 0.25, 0.0], [- 0.25, 0.25, 0.0]],
   [[0.0, - 0.5, 0.0], [- 0.25, - 0.25, - 0.25], [- 0.125, - 0.125, - 0.125]],
   [[0.125, 0.125, 0.125], [0.0, - 0.5, 0.0], [- 0.25, - 0.25, - 0.25], [- 0.125, - 0.125, - 0.125]],
   [[- 0.375, - 0.375, - 0.375], [- 0.25, 0.0, 0.25], [- 0.125, - 0.125, - 0.125], [- 0.25, 0.25, 0.0]],
   [[0.25, - 0.25, 0.0], [- 0.25, 0.25, 0.0], [0.125, - 0.125, 0.125]],
   [[0.0, 0.5, 0.0], [0.0, - 0.5, 0.0]],
   [[0.0, 0.5, 0.0], [0.125, - 0.125, 0.125], [- 0.25, 0.25, - 0.25]],
   [[0.0, 0.5, 0.0], [- 0.25, 0.25, 0.25], [0.125, - 0.125, - 0.125]],
   [[0.25, - 0.25, 0.0], [- 0.25, 0.25, 0.0]],
   [[- 0.5, 0.0, 0.0], [- 0.25, - 0.25, 0.25], [- 0.125, - 0.125, 0.125]],
   [[0.0, 0.25, - 0.25], [0.375, - 0.375, - 0.375], [- 0.125, 0.125, 0.125], [0.25, 0.25, 0.0]],
   [[0.5, 0.0, 0.0], [0.25, - 0.25, 0.25], [- 0.125, 0.125, - 0.125], [0.125, - 0.125, 0.125]],
   [[0.125, - 0.125, 0.125], [0.25, - 0.25, 0.0], [0.25, - 0.25, 0.0]],
   [[0.25, 0.25, - 0.25], [0.25, 0.25, - 0.25], [0.125, 0.125, - 0.125], [- 0.125, - 0.125, 0.125]],
   [[- 0.0, 0.0, 0.5], [- 0.25, - 0.25, 0.25], [- 0.125, - 0.125, 0.125]],
   [[0.125, 0.125, 0.125], [0.125, - 0.125, 0.125], [- 0.125, 0.125, 0.125]],
   [[- 0.125, 0.125, 0.125], [0.125, - 0.125, 0.125]],
   [[- 0.375, - 0.375, 0.375], [- 0.0, 0.25, 0.25], [0.125, 0.125, - 0.125], [- 0.25, - 0.0, - 0.25]],
   [[0.0, - 0.25, 0.25], [0.0, 0.25, - 0.25], [0.125, - 0.125, 0.125]],
   [[0.125, - 0.125, 0.125], [- 0.25, - 0.0, - 0.25], [0.25, 0.0, 0.25]],
   [[0.125, - 0.125, 0.125], [0.125, - 0.125, 0.125]],
   [[0.0, - 0.5, 0.0], [0.125, 0.125, - 0.125], [0.25, 0.25, - 0.25]],
   [[0.0, - 0.25, 0.25], [0.0, 0.25, - 0.25]],
   [[0.125, 0.125, 0.125], [0.125, - 0.125, 0.125]],
   [[0.125, - 0.125, 0.125]],
   [[- 0.5, 0.0, 0.0], [- 0.125, - 0.125, - 0.125], [- 0.25, - 0.25, - 0.25]],
   [[- 0.5, 0.0, 0.0], [- 0.125, - 0.125, - 0.125], [- 0.25, - 0.25, - 0.25], [0.125, 0.125, 0.125]],
   [[0.375, 0.375, 0.375], [0.0, 0.25, - 0.25], [- 0.125, - 0.125, - 0.125], [- 0.25, 0.25, 0.0]],
   [[0.125, - 0.125, - 0.125], [0.25, - 0.25, 0.0], [0.25, - 0.25, 0.0]],
   [[0.125, 0.125, 0.125], [0.375, 0.375, 0.375], [0.0, - 0.25, 0.25], [- 0.25, 0.0, 0.25]],
   [[- 0.25, 0.0, 0.25], [- 0.25, 0.0, 0.25], [0.125, - 0.125, - 0.125]],
   [[0.0, - 0.25, - 0.25], [0.0, 0.25, 0.25], [- 0.125, 0.125, 0.125]],
   [[- 0.125, 0.125, 0.125], [0.125, - 0.125, - 0.125]],
   [[- 0.125, - 0.125, - 0.125], [- 0.25, - 0.25, - 0.25], [0.25, 0.25, 0.25], [0.125, 0.125, 0.125]],
   [[- 0.125, - 0.125, 0.125], [0.125, - 0.125, 0.125], [0.125, - 0.125, - 0.125]],
   [[0.0, 0.0, - 0.5], [0.25, 0.25, 0.25], [- 0.125, - 0.125, - 0.125]],
   [[0.125, - 0.125, 0.125], [0.125, - 0.125, - 0.125]],
   [[0.0, - 0.5, 0.0], [0.25, 0.25, 0.25], [0.125, 0.125, 0.125]],
   [[- 0.125, - 0.125, 0.125], [0.125, - 0.125, - 0.125]],
   [[0.0, - 0.25, - 0.25], [0.0, 0.25, 0.25]],
   [[0.125, - 0.125, - 0.125]],
   [[0.5, 0.0, 0.0], [0.5, 0.0, 0.0]],
   [[- 0.5, 0.0, 0.0], [- 0.25, 0.25, 0.25], [- 0.125, 0.125, 0.125]],
   [[0.5, 0.0, 0.0], [0.25, - 0.25, 0.25], [- 0.125, 0.125, - 0.125]],
   [[0.25, - 0.25, 0.0], [0.25, - 0.25, 0.0]],
   [[0.5, 0.0, 0.0], [- 0.25, - 0.25, 0.25], [- 0.125, - 0.125, 0.125]],
   [[- 0.25, 0.0, 0.25], [- 0.25, 0.0, 0.25]],
   [[0.125, 0.125, 0.125], [- 0.125, 0.125, 0.125]],
   [[- 0.125, 0.125, 0.125]],
   [[0.5, 0.0, - 0.0], [0.25, 0.25, 0.25], [0.125, 0.125, 0.125]],
   [[0.125, - 0.125, 0.125], [- 0.125, - 0.125, 0.125]],
   [[- 0.25, - 0.0, - 0.25], [0.25, 0.0, 0.25]],
   [[0.125, - 0.125, 0.125]],
   [[- 0.25, - 0.25, 0.0], [0.25, 0.25, - 0.0]],
   [[- 0.125, - 0.125, 0.125]],
   [[0.125, 0.125, 0.125]],
   [[0, 0, 0]]]"

fun emap :: "('a \<Rightarrow> error + 'b) \<Rightarrow> 'a list \<Rightarrow> error + 'b list" where
  "emap f [] = Inr []"
| "emap f (x # xs) = ebind (f x) (\<lambda>y. ebind (emap f xs) (\<lambda>ys. Inr (y # ys)))"

text \<open>
  The area of one normal: the Euclidean norm of the vector scaled by the spacing. Reading
  \<^verbatim>\<open>spacing[1]\<close> or \<^verbatim>\<open>spacing[2]\<close> of a tuple that is too short raises IndexError.
\<close>

definition area_of :: "real list \<Rightarrow> real list \<Rightarrow> real" where
  "area_of spacing normal =
     sqrt ((normal ! 0 * spacing ! 1 * spacing ! 2)\<^sup>2
         + (normal ! 1 * spacing ! 0 * spacing ! 2)\<^sup>2
         + (normal ! 2 * spacing ! 0 * spacing ! 1)\<^sup>2)"

definition normal_area :: "real list \<Rightarrow> real list \<Rightarrow> error + real" where
  "normal_area spacing normal =
     (if length spacing < 3 then Inl IndexError else Inr (area_of spacing normal))"

definition neighbour_code_to_surface_area :: "real list \<Rightarrow> error + real list" where
  "neighbour_code_to_surface_area spacing =
     emap (\<lambda>code. ebind (emap (normal_area spacing) (neighbour_code_to_normals ! code))
                     (\<lambda>areas. Inr (sum_list areas)))
          [0..<256]"

definition expand_dims_last :: "'a ndarray \<Rightarrow> 'a ndarray" where
  "expand_dims_last a = NDArray (shape a @ [1]) (\<lambda>idx. item a (butlast idx))"

text \<open>2-D images with a 2-component spacing are converted to 3-D.\<close>

definition promote ::
  "bool ndarray \<Rightarrow> bool ndarray \<Rightarrow> real list \<Rightarrow> bool ndarray \<times> bool ndarray \<times> real list" where
  "promote segmentation_arr ground_truth_arr spacing =
     (if ndim segmentation_arr = 2 \<and> ndim ground_truth_arr = 2 \<and> length spacing = 2
      then (expand_dims_last segmentation_arr, expand_dims_last ground_truth_arr, spacing @ [1])
      else (segmentation_arr, ground_truth_arr, spacing))"

definition bitwise_or :: "bool ndarray \<Rightarrow> bool ndarray \<Rightarrow> error + bool ndarray" where
  "bitwise_or a b = elementwise2 (\<or>) a b"

text \<open>
  \<^verbatim>\<open>np.max(a, axis)\<close> of a boolean array: AxisError when the axis does not exist,
  ValueError when the reduced axis has extent 0.
\<close>

definition np_max :: "nat \<Rightarrow> bool ndarray \<Rightarrow> error + bool ndarray" where
  "np_max axis a =
     (if ndim a \<le> axis then Inl AxisError
      else if shape a ! axis = 0 then Inl ValueError
      else Inr (NDArray (take axis (shape a) @ drop (Suc axis) (shape a))
             (\<lambda>idx. list_ex (\<lambda>j. item a (take axis idx @ [j] @ drop axis idx))
                        [0..<shape a ! axis])))"

definition projection :: "nat \<Rightarrow> nat \<Rightarrow> bool ndarray \<Rightarrow> error + bool ndarray" where
  "projection axis1 axis2 a = ebind (np_max axis1 a) (np_max axis2)"

text \<open>\<^verbatim>\<open>np.nonzero(a)[0]\<close>: the first coordinate of every true entry, in row-major order.\<close>

definition nonzero_0 :: "bool ndarray \<Rightarrow> nat list" where
  "nonzero_0 a = map hd (filter (item a) (indices (shape a)))"

definition np_min_list :: "nat list \<Rightarrow> error + nat" where
  "np_min_list xs = (if xs = [] then Inl ValueError else Inr (fold min (tl xs) (hd xs)))"

definition np_max_list :: "nat list \<Rightarrow> error + nat" where
  "np_max_list xs = (if xs = [] then Inl ValueError else Inr (fold max (tl xs) (hd xs)))"

text \<open>
  \<^verbatim>\<open>a[lo0:hi0, lo1:hi1, lo2:hi2]\<close>: IndexError on an array with fewer than three axes;
  slice bounds are clipped to the extent of the axis.
\<close>

definition slice3 :: "nat list \<Rightarrow> nat list \<Rightarrow> 'a ndarray \<Rightarrow> error + 'a ndarray" where
  "slice3 lo hi a =
     (if ndim a < 3 then Inl IndexError
      else Inr (NDArray
             (map (\<lambda>(d, l, h). min h d - min l d) (zip (take 3 (shape a)) (zip lo hi))
                @ drop 3 (shape a))
             (\<lambda>idx. item a (map (\<lambda>(i, l). i + l) (zip (take 3 idx) lo) @ drop 3 idx))))"

fun strip_leading_ones :: "nat \<Rightarrow> nat list \<Rightarrow> nat list" where
  "strip_leading_ones k [] = []"
| "strip_leading_ones k (d # ds) =
     (if k < length (d # ds) \<and> d = 1 then strip_leading_ones k ds else d # ds)"

text \<open>
  Assignment of an array to a region of shape \<open>dst\<close>: leading axes of extent 1 are
  dropped from a source with too many axes, then every source extent must be 1 or the
  extent of the region (aligned at the last axis); ValueError otherwise.
\<close>

definition assign_broadcast :: "nat list \<Rightarrow> 'a ndarray \<Rightarrow> error + 'a ndarray" where
  "assign_broadcast dst a =
     (let s = strip_leading_ones (length dst) (shape a)
      in if length s \<le> length dst
            \<and> list_all (\<lambda>(sd, dd). sd = dd \<or> sd = 1) (zip (rev s) (rev dst))
         then Inr (NDArray dst
                (\<lambda>idx. item a (replicate (ndim a - length s) 0 @ broadcast_index s idx)))
         else Inl ValueError)"

text \<open>
  The cropped volume as 8-bit integers, zero-padded by one voxel at the upper end of each
  axis: \<^verbatim>\<open>cropmask = np.zeros((bbox_max - bbox_min) + 2, np.uint8)\<close> followed by
  \<^verbatim>\<open>cropmask[0:-1, 0:-1, 0:-1] = arr[bbox_min[0]:bbox_max[0] + 1, ...]\<close>.
\<close>

definition crop_pad :: "nat list \<Rightarrow> nat list \<Rightarrow> bool ndarray \<Rightarrow> error + nat ndarray" where
  "crop_pad bbox_min bbox_max arr =
     (let inner = map (\<lambda>(hi, lo). hi - lo + 1) (zip bbox_max bbox_min)
      in ebind (slice3 bbox_min (map Suc bbox_max) arr) (\<lambda>rhs.
         ebind (assign_broadcast inner rhs) (\<lambda>region.
           Inr (NDArray (map Suc inner)
                  (\<lambda>idx. if list_all2 (<) idx inner \<and> item region idx then 1 else 0)))))"

definition kernel :: "nat list list list" where
  "kernel = [[[128, 64],
              [32, 16]],
             [[8, 4],
              [2, 1]]]"

text \<open>
  \<^verbatim>\<open>ndimage.filters.correlate(a, kernel, mode="constant", cval=0)\<close> for the 2x2x2 kernel,
  whose centre is the entry (1,1,1): the output at \<open>(i,j,k)\<close> weighs the inputs at
  \<open>(i+x-1, j+y-1, k+z-1)\<close> with \<open>kernel[x][y][z]\<close>, reading 0 outside the array.
\<close>

definition item_cval :: "nat ndarray \<Rightarrow> int list \<Rightarrow> nat" where
  "item_cval a p =
     (if list_all2 (\<lambda>q d. 0 \<le> q \<and> q < int d) p (shape a) then item a (map nat p) else 0)"

definition correlate :: "nat ndarray \<Rightarrow> nat ndarray" where
  "correlate a =
     NDArray (shape a)
       (\<lambda>idx. sum_list (map (\<lambda>(x, y, z).
                  kernel ! x ! y ! z
                    * item_cval a [int (idx ! 0) + int x - 1, int (idx ! 1) + int y - 1,
                                   int (idx ! 2) + int z - 1])
                [(0,0,0), (0,0,1), (0,1,0), (0,1,1), (1,0,0), (1,0,1), (1,1,0), (1,1,1)]))"

definition borders :: "nat ndarray \<Rightarrow> bool ndarray" where
  "borders neighbour_code_map = map_nd (\<lambda>c. c \<noteq> 0 \<and> c \<noteq> 255) neighbour_code_map"

definition np_any :: "bool ndarray \<Rightarrow> bool" where
  "np_any a = list_ex (item a) (indices (shape a))"

text \<open>
  \<^verbatim>\<open>ndimage.morphology.distance_transform_edt(input, sampling)\<close>: at every voxel the
  smallest Euclidean distance, with each axis scaled by the sampling, to a voxel where the
  input is false. A sampling whose length is not the number of axes raises RuntimeError.
  The source calls it only on an input that has a false entry.
\<close>

definition distance_transform_edt :: "bool ndarray \<Rightarrow> real list \<Rightarrow> error + edist ndarray" where
  "distance_transform_edt input sampling =
     (if length sampling \<noteq> ndim input then Inl RuntimeError
      else Inr (NDArray (shape input)
             (\<lambda>p. Fin (Min (set (map
                     (\<lambda>q. sqrt (sum_list (map (\<lambda>(s, pi, qi). (s * (real pi - real qi))\<^sup>2)
                                              (zip sampling (zip p q)))))
                     (filter (\<lambda>q. \<not> item input q) (indices (shape input)))))))))"

definition distmap :: "bool ndarray \<Rightarrow> real list \<Rightarrow> error + edist ndarray" where
  "distmap bs spacing =
     (if np_any bs then distance_transform_edt (map_nd Not bs) spacing
      else Inr (NDArray (shape bs) (\<lambda>idx. PInf)))"

text \<open>Boolean-mask indexing \<^verbatim>\<open>a[msk]\<close>: the entries at the true positions, row-major.\<close>

definition mask_select :: "'a ndarray \<Rightarrow> bool ndarray \<Rightarrow> 'a list" where
  "mask_select a msk = map (item a) (filter (item msk) (indices (shape msk)))"

text \<open>
  \<^verbatim>\<open>sorted(zip(distances, areas))\<close> split back into its two columns; an empty
  sequence is left as it is. Python compares the pairs lexicographically.
\<close>

definition sort_surfels :: "edist list \<Rightarrow> real list \<Rightarrow> edist list \<times> real list" where
  "sort_surfels distances areas =
     (if distances \<noteq> []
      then (let sorted_surfels = sort (zip distances areas)
            in (map fst sorted_surfels, map snd sorted_surfels))
      else (distances, areas))"

definition empty_result :: "(string \<times> real list) list" where
  "empty_result = [(''distances_gt_to_pred'', []), (''distances_pred_to_gt'', []),
                   (''surfel_areas_gt'', []), (''surfel_areas_pred'', [])]"

text \<open>
  \<^verbatim>\<open>Distances._calculate\<close>: the object after the call together with the value the
  method returns (\<open>None\<close> when it runs to its end).
\<close>

definition calculate ::
  "Distances \<Rightarrow> bool ndarray \<Rightarrow> bool ndarray \<Rightarrow> real list
     \<Rightarrow> error + Distances \<times> (string \<times> real list) list option" where
  "calculate self segmentation_arr0 ground_truth_arr0 spacing0 =
     (case promote segmentation_arr0 ground_truth_arr0 spacing0 of
        (segmentation_arr, ground_truth_arr, spacing) \<Rightarrow>
     ebind (neighbour_code_to_surface_area spacing) (\<lambda>neighbour_code_to_surface_area.
     ebind (bitwise_or ground_truth_arr segmentation_arr) (\<lambda>mask_all.
     ebind (projection 2 1 mask_all) (\<lambda>proj_0.
     let idx_nonzero_0 = nonzero_0 proj_0 in
     if idx_nonzero_0 = [] then Inr (self, Some empty_result)
     else
     ebind (np_min_list idx_nonzero_0) (\<lambda>bbox_min_0.
     ebind (np_max_list idx_nonzero_0) (\<lambda>bbox_max_0.
     ebind (projection 2 0 mask_all) (\<lambda>proj_1.
     ebind (np_min_list (nonzero_0 proj_1)) (\<lambda>bbox_min_1.
     ebind (np_max_list (nonzero_0 proj_1)) (\<lambda>bbox_max_1.
     ebind (projection 1 0 mask_all) (\<lambda>proj_2.
     ebind (np_min_list (nonzero_0 proj_2)) (\<lambda>bbox_min_2.
     ebind (np_max_list (nonzero_0 proj_2)) (\<lambda>bbox_max_2.
     let bbox_min = [bbox_min_0, bbox_min_1, bbox_min_2];
         bbox_max = [bbox_max_0, bbox_max_1, bbox_max_2] in
     ebind (crop_pad bbox_min bbox_max ground_truth_arr) (\<lambda>cropmask_gt.
     ebind (crop_pad bbox_min bbox_max segmentation_arr) (\<lambda>cropmask_pred.
     let neighbour_code_map_gt = correlate cropmask_gt;
         neighbour_code_map_pred = correlate cropmask_pred;
         borders_gt = borders neighbour_code_map_gt;
         borders_pred = borders neighbour_code_map_pred in
     ebind (distmap borders_gt spacing) (\<lambda>distmap_gt.
     ebind (distmap borders_pred spacing) (\<lambda>distmap_pred.
     let surface_area_map_gt = map_nd ((!) neighbour_code_to_surface_area) neighbour_code_map_gt;
         surface_area_map_pred = map_nd ((!) neighbour_code_to_surface_area) neighbour_code_map_pred;
         sorted_gt = sort_surfels (mask_select distmap_pred borders_gt)
                                  (mask_select surface_area_map_gt borders_gt);
         sorted_pred = sort_surfels (mask_select distmap_gt borders_pred)
                                    (mask_select surface_area_map_pred borders_pred)
     in Inr (self\<lparr>distances_gt_to_pred := Some (fst sorted_gt),
                   distances_pred_to_gt := Some (fst sorted_pred),
                   surfel_areas_gt := Some (snd sorted_gt),
                   surfel_areas_pred := Some (snd sorted_pred)\<rparr>, None)))))))))))))))))"

text \<open>
  \<^verbatim>\<open>Distances.__init__\<close>: the four attributes start as \<^verbatim>\<open>None\<close>; the value returned
  by \<^verbatim>\<open>_calculate\<close> is not used.
\<close>

definition Distances_init :: "bool ndarray \<Rightarrow> bool ndarray \<Rightarrow> real list \<Rightarrow> error + Distances" where
  "Distances_init prediction label spacing =
     ebind (calculate \<lparr>distances_gt_to_pred = None, distances_pred_to_gt = None,
                       surfel_areas_gt = None, surfel_areas_pred = None\<rparr>
              prediction label spacing)
       (\<lambda>(self, returned). Inr self)"

section \<open>Voxel-wise indexing\<close>

text \<open>
  The state of a \<^verbatim>\<open>VoxelWiseIndexing\<close> object. The class \<^verbatim>\<open>IndexExpression\<close> is
  defined in another module; its constructor is a parameter \<open>mk\<close> of the model.
\<close>

record 'e VoxelWiseIndexing =
  shape_attr :: "nat list option"
  indexing :: "'e list option"
  image_dimension :: int

definition VoxelWiseIndexing_init :: "int \<Rightarrow> 'e VoxelWiseIndexing" where
  "VoxelWiseIndexing_init d = \<lparr>shape_attr = None, indexing = None, image_dimension = d\<rparr>"

text \<open>The slice \<^verbatim>\<open>xs[0:k]\<close>; a negative \<open>k\<close> counts from the end.\<close>

definition slice_to :: "'a list \<Rightarrow> int \<Rightarrow> 'a list" where
  "slice_to xs k = (if k < 0 then take (nat (int (length xs) + k)) xs else take (nat k) xs)"

text \<open>
  \<^verbatim>\<open>VoxelWiseIndexing.__call__\<close>: the result (or the exception) and the object after the
  call. For an empty \<^verbatim>\<open>shape_without_voxel\<close> the product of the remaining extents is the
  float 1.0, which \<^verbatim>\<open>reshape\<close> rejects with a TypeError after the shape was stored.
\<close>

definition VoxelWiseIndexing_call ::
  "(nat list \<Rightarrow> 'e) \<Rightarrow> 'e VoxelWiseIndexing \<Rightarrow> nat list
     \<Rightarrow> (error + 'e list option) \<times> 'e VoxelWiseIndexing" where
  "VoxelWiseIndexing_call mk self shp =
     (if shape_attr self = Some shp then (Inr (indexing self), self)
      else
        let self1 = self\<lparr>shape_attr := Some shp\<rparr>;
            shape_without_voxel = slice_to shp (image_dimension self1)
        in if shape_without_voxel = [] then (Inl TypeError, self1)
           else let ixs = map mk (indices shape_without_voxel)
                in (Inr (Some ixs), self1\<lparr>indexing := Some ixs\<rparr>))"

section \<open>Example inputs\<close>

text \<open>A one-voxel volume labelled 2 (a label that is neither 0 nor 1).\<close>

definition label2 :: "int ndarray" where
  "label2 = NDArray [1] (\<lambda>idx. 2)"

text \<open>Two binary volumes of shape (2,).\<close>

definition pred_10 :: "int ndarray" where
  "pred_10 = NDArray [2] (\<lambda>idx. if idx = [0] then 1 else 0)"

definition label_11 :: "int ndarray" where
  "label_11 = NDArray [2] (\<lambda>idx. 1)"

text \<open>The all-background 4x4x4 volume and the unit spacing.\<close>

definition background_555 :: "bool ndarray" where
  "background_555 = NDArray [5, 5, 5] (\<lambda>idx. False)"

definition centre_555 :: "bool ndarray" where
  "centre_555 = NDArray [5, 5, 5] (\<lambda>idx. idx = [2, 2, 2])"

definition background_444 :: "bool ndarray" where
  "background_444 = NDArray [4, 4, 4] (\<lambda>idx. False)"

definition unit_spacing :: "real list" where
  "unit_spacing = [1, 1, 1]"

definition unset :: Distances where
  "unset = \<lparr>distances_gt_to_pred = None, distances_pred_to_gt = None,
            surfel_areas_gt = None, surfel_areas_pred = None\<rparr>"

section \<open>Basic facts about arrays and errors\<close>

lemma ebind_Inr [simp]: "ebind (Inr x) f = f x"
  by (simp add: ebind_def)

lemma ebind_Inl [simp]: "ebind (Inl e) f = Inl e"
  by (simp add: ebind_def)

lemma ebind_eq_Inr: "ebind m f = Inr y \<longleftrightarrow> (\<exists>x. m = Inr x \<and> f x = Inr y)"
  by (cases m) simp_all

lemma emap_Inr: "(\<And>x. x \<in> set xs \<Longrightarrow> f x = Inr (g x)) \<Longrightarrow> emap f xs = Inr (map g xs)"
  by (induction xs) simp_all

lemma broadcast_dims_same: "broadcast_dims xs xs = Some xs"
  by (induction xs) auto

lemma broadcast_shapes_same: "broadcast_shapes s s = Some s"
  by (simp add: broadcast_shapes_def broadcast_dims_same)

lemma indices_bounds: "idx \<in> set (indices s) \<Longrightarrow> list_all2 (<) idx s"
  by (induction s arbitrary: idx) auto

lemma broadcast_index_same_aux:
  "list_all2 (<) idx s \<Longrightarrow> map (\<lambda>(d, i). if d = 1 then 0 else i) (zip s idx) = (idx :: nat list)"
  by (induction idx s rule: list_all2_induct) auto

lemma broadcast_index_same:
  assumes "idx \<in> set (indices s)"
  shows "broadcast_index s idx = idx"
proof -
  from assms have a: "list_all2 (<) idx s" by (rule indices_bounds)
  then have l: "length idx = length s" by (rule list_all2_lengthD)
  from broadcast_index_same_aux[OF a] l show ?thesis by (simp add: broadcast_index_def)
qed

lemma length_indices: "length (indices s) = prod_list s"
proof (induction s)
  case Nil
  show ?case by simp
next
  case (Cons a s)
  have "length (concat (map (\<lambda>i. map ((#) i) (indices s)) [0..<k])) = k * prod_list s" for k
    by (induction k) (simp_all add: Cons)
  then show ?case by simp
qed

text \<open>Four predicates of which exactly one holds at every element split a list four ways.\<close>

lemma count4:
  assumes "\<And>x. x \<in> set xs \<Longrightarrow>
     (P x \<or> Q x \<or> R x \<or> S x) \<and> \<not> (P x \<and> Q x) \<and> \<not> (P x \<and> R x) \<and> \<not> (P x \<and> S x)
       \<and> \<not> (Q x \<and> R x) \<and> \<not> (Q x \<and> S x) \<and> \<not> (R x \<and> S x)"
  shows "length (filter P xs) + length (filter Q xs) + length (filter R xs)
           + length (filter S xs) = length xs"
  using assms by (induction xs) auto

section \<open>The surface-area table\<close>

lemma table_ok:
  assumes "3 \<le> length spacing"
  shows "neighbour_code_to_surface_area spacing =
     Inr (map (\<lambda>code. sum_list (map (area_of spacing) (neighbour_code_to_normals ! code)))
            [0..<256])"
proof -
  have "emap (normal_area spacing) ns = Inr (map (area_of spacing) ns)" for ns
    using assms by (intro emap_Inr) (simp add: normal_area_def)
  then show ?thesis
    unfolding neighbour_code_to_surface_area_def by (intro emap_Inr) simp
qed

lemma table_short:
  assumes "length spacing < 3"
  shows "neighbour_code_to_surface_area spacing = Inl IndexError"
proof -
  have n: "neighbour_code_to_normals ! 0 = [[0, 0, 0]]"
    by (simp add: neighbour_code_to_normals_def)
  have u: "[0..<256] = 0 # [1..<256]"
    by (simp add: upt_conv_Cons)
  show ?thesis
    unfolding neighbour_code_to_surface_area_def u using assms by (simp add: n normal_area_def)
qed

section \<open>Claims\<close>

text \<open>
  C1. When prediction and label are entirely background, the four sequences of the
  constructed \<^verbatim>\<open>Distances\<close> should be empty. The early exit of \<^verbatim>\<open>_calculate\<close> returns
  a dictionary of four empty arrays, which the constructor does not use: on the
  all-background 4x4x4 volumes with unit spacing the four attributes are still \<^verbatim>\<open>None\<close>.
\<close>

theorem empty_surfaces_attributes_unset:
  "Distances_init background_444 background_444 unit_spacing = Inr unset"
  by (simp add: Distances_init_def calculate_def promote_def ndim_def background_444_def
      unit_spacing_def unset_def table_ok bitwise_or_def elementwise2_def broadcast_shapes_def
      projection_def np_max_def nonzero_0_def list_ex_iff)

text \<open>
  C4 (as stated, for arbitrary contents). On a volume pair whose only voxel carries the
  label 2 no count is incremented, so the four counts sum to 0 while \<open>n\<close> is 1.
\<close>

theorem confusion_completeness_counterexample:
  "ConfusionMatrix_init label2 label2 = Inr \<lparr>tp = 0, tn = 0, fp = 0, fn = 0, n = 1\<rparr>"
  by (simp add: ConfusionMatrix_init_def logical_and_def elementwise2_def broadcast_shapes_def
      map_nd_def np_sum_def size_nd_def label2_def)

text \<open>
  C4 (amended). For prediction and label volumes of the same shape whose entries are all
  0 or 1, the constructor succeeds and \<open>tp + tn + fp + fn = n\<close>, the number of voxels.
\<close>

theorem confusion_completeness:
  assumes "shape prediction = shape label"
    and "\<forall>idx\<in>set (indices (shape prediction)).
           item prediction idx \<in> {0, 1} \<and> item label idx \<in> {0, 1}"
  shows "\<exists>cm. ConfusionMatrix_init prediction label = Inr cm
           \<and> tp cm + tn cm + fp cm + fn cm = n cm \<and> n cm = prod_list (shape prediction)"
proof -
  let ?xs = "indices (shape prediction)"
  let ?c = "\<lambda>a b. filter (\<lambda>i. item prediction i = a \<and> item label i = b) ?xs"
  have "length (?c 1 1) + length (?c 0 0) + length (?c 1 0) + length (?c 0 1) = length ?xs"
    using assms(2) by (intro count4) auto
  moreover have "filter (\<lambda>i. item prediction (broadcast_index (shape prediction) i) = a
                       \<and> item label (broadcast_index (shape prediction) i) = b) ?xs = ?c a b"
    for a b
    by (rule filter_cong) (simp_all add: broadcast_index_same)
  ultimately show ?thesis
    using assms(1)
    by (simp add: ConfusionMatrix_init_def logical_and_def elementwise2_def
        broadcast_shapes_same map_nd_def np_sum_def size_nd_def length_indices)
qed

theorem confusion_completeness_witness:
  "\<exists>cm. ConfusionMatrix_init pred_10 label_11 = Inr cm
      \<and> tp cm + tn cm + fp cm + fn cm = n cm \<and> n cm = prod_list (shape pred_10)"
proof -
  have h1: "shape pred_10 = shape label_11"
    by (simp add: pred_10_def label_11_def)
  have h2: "\<forall>idx\<in>set (indices (shape pred_10)).
              item pred_10 idx \<in> {0, 1} \<and> item label_11 idx \<in> {0, 1}"
    by (simp add: pred_10_def label_11_def)
  from confusion_completeness[OF h1 h2] show ?thesis .
qed

end
